theory Spec2Isabelle
  imports Main
begin

section \<open>The Asana create-task form: values, request and submission\<close>

text \<open>
  The development embeds \<^verbatim>\<open>src/extensions/asana/src/components/CreateTaskForm.tsx\<close>.
  A JavaScript string is a \<^typ>\<open>string\<close>; a property that may be \<^verbatim>\<open>undefined\<close> is an
  \<^typ>\<open>'a option\<close> with \<^term>\<open>None\<close> for \<^verbatim>\<open>undefined\<close> (and for \<^verbatim>\<open>null\<close> where the source
  only tests truthiness).
\<close>

subsection \<open>Dates\<close>

text \<open>
  A \<^verbatim>\<open>Date\<close> as the form's date picker delivers it, seen through its local-time getters
  (\<^verbatim>\<open>getMonth\<close> counts from 0, as in JavaScript).
\<close>

record Date =
  getFullYear :: int
  getMonth :: nat
  getDate :: nat
  getHours :: nat
  getMinutes :: nat
  getSeconds :: nat
  getMilliseconds :: nat

fun decimal :: "nat \<Rightarrow> string" where
  "decimal n =
     (if n < 10 then [''0123456789'' ! n]
      else decimal (n div 10) @ [''0123456789'' ! (n mod 10)])"

declare decimal.simps [simp del]

definition addLeadingZeros :: "nat \<Rightarrow> nat \<Rightarrow> string" where
  "addLeadingZeros n targetLength =
     replicate (targetLength - length (decimal n)) (CHR ''0'') @ decimal n"

text \<open>
  Modelled from the spec: \<^verbatim>\<open>format\<close> is the function of the third-party library
  \<^verbatim>\<open>date-fns\<close>, which is not under src. The source calls it with the one pattern
  \<^verbatim>\<open>"yyyy-MM-dd"\<close>; the spec describes the result as the local calendar date of the chosen
  date, formatted as \<^verbatim>\<open>yyyy-MM-dd\<close>, with no time of day and no time-zone conversion.
  The year is padded to four digits, month and day to two; a year before year 1 is counted
  in its era, as the library does.
\<close>

definition format_yyyy_MM_dd :: "Date \<Rightarrow> string" where
  "format_yyyy_MM_dd date =
     (let signedYear = getFullYear date;
          year = (if signedYear > 0 then signedYear else 1 - signedYear)
      in addLeadingZeros (nat year) 4 @ ''-'' @
         addLeadingZeros (getMonth date + 1) 2 @ ''-'' @
         addLeadingZeros (getDate date) 2)"

subsection \<open>Form values\<close>

text \<open>
  What a form item can hold. The custom-field items of this form are drop-downs and text
  fields, whose values are strings; the other constructors are the values of the named
  items.
\<close>

datatype FormValue =
    Undefined
  | Null
  | Str string
  | StrList "string list"
  | DateValue Date

text \<open>
  \<^verbatim>\<open>TaskFormValues\<close>: the six named items of the form and, in \<open>others\<close>, every further
  property of the submitted object in the order \<^verbatim>\<open>Object.entries\<close> lists it (here the
  custom-field items, whose id is \<^verbatim>\<open>`field-${field.gid}`\<close>).
\<close>

record TaskFormValues =
  workspace :: "string option"
  projects :: "string list option"
  name :: "string option"
  description :: "string option"
  assignee :: "string option"
  due_date :: "Date option"
  others :: "(string \<times> FormValue) list"

text \<open>
  The properties of the component (lines 16--21). They are in the scope of the submit
  handler, which does not read them.
\<close>

record Props =
  draftValues :: "TaskFormValues option"
  assignee :: "string option"
  workspace :: "string option"
  fromEmptyView :: "bool option"

text \<open>Truthiness of a string that may be undefined: the empty string is falsy.\<close>

fun truthy :: "string option \<Rightarrow> bool" where
  "truthy None = False"
| "truthy (Some s) = (s \<noteq> [])"

subsection \<open>Notes composition (lines 32--40)\<close>

text \<open>A value inside a template literal: \<^verbatim>\<open>undefined\<close> prints as the word.\<close>

fun template :: "string option \<Rightarrow> string" where
  "template None = ''undefined''"
| "template (Some s) = s"

definition separator :: string where
  "separator = [CHR 0x0A, CHR ''-'', CHR ''-'', CHR 0x0A]"

definition signature_markup :: string where
  \<open>signature_markup =
     ''Created via <a href="https://www.raycast.com/?ref=signatureAsana">Raycast</a>''\<close>

definition htmlNotes :: "bool \<Rightarrow> TaskFormValues \<Rightarrow> string" where
  "htmlNotes signature values =
     (let h0 = ''<body>'' @ template (description values);
          h1 = (if signature
                then (if truthy (description values) then h0 @ separator else h0)
                     @ signature_markup
                else h0)
      in h1 @ ''</body>'')"

subsection \<open>Custom field projection (lines 42--48)\<close>

definition startsWith :: "string \<Rightarrow> string \<Rightarrow> bool" where
  "startsWith s p = (take (length p) s = p)"

text \<open>\<^verbatim>\<open>s.split(c)\<close> for a separator of one character: never empty.\<close>

fun split :: "string \<Rightarrow> char \<Rightarrow> string list" where
  "split [] c = [[]]"
| "split (x # xs) c =
     (if x = c then [] # split xs c
      else (case split xs c of w # ws \<Rightarrow> (x # w) # ws | [] \<Rightarrow> [[x]]))"

text \<open>
  \<^verbatim>\<open>field[0].split("-")[1]\<close>. Reading index 1 of a shorter array gives \<^verbatim>\<open>undefined\<close>,
  which as a computed property key is the string \<^verbatim>\<open>"undefined"\<close>.
\<close>

definition fieldId :: "string \<Rightarrow> string" where
  "fieldId key = (case split key (CHR ''-'') of _ # p # _ \<Rightarrow> p | _ \<Rightarrow> ''undefined'')"

fun of_string :: "string option \<Rightarrow> FormValue" where
  "of_string None = Undefined"
| "of_string (Some s) = Str s"

fun of_list :: "string list option \<Rightarrow> FormValue" where
  "of_list None = Undefined"
| "of_list (Some xs) = StrList xs"

fun of_date :: "Date option \<Rightarrow> FormValue" where
  "of_date None = Null"
| "of_date (Some d) = DateValue d"

definition Object_entries :: "TaskFormValues \<Rightarrow> (string \<times> FormValue) list" where
  "Object_entries values =
     [(''workspace'', of_string (TaskFormValues.workspace values)),
      (''projects'', of_list (projects values)),
      (''name'', of_string (name values)),
      (''description'', of_string (description values)),
      (''assignee'', of_string (TaskFormValues.assignee values)),
      (''due_date'', of_date (due_date values))] @ others values"

definition customFieldsEntries :: "TaskFormValues \<Rightarrow> (string \<times> FormValue) list" where
  "customFieldsEntries values =
     filter (\<lambda>(key, value). startsWith key ''field-'' \<and> value \<noteq> Str [])
       (Object_entries values)"

definition customFields :: "TaskFormValues \<Rightarrow> (string \<rightharpoonup> FormValue)" where
  "customFields values =
     foldl (\<lambda>acc field. acc(fieldId (fst field) \<mapsto> snd field)) Map.empty
       (customFieldsEntries values)"

subsection \<open>The request (lines 50--58)\<close>

record TaskCreationRequest =
  workspace :: "string option"
  name :: "string option"
  custom_fields :: "string \<rightharpoonup> FormValue"
  projects :: "string list option"
  html_notes :: "string option"
  assignee :: "string option"
  due_on :: "string option"

definition request :: "bool \<Rightarrow> TaskFormValues \<Rightarrow> TaskCreationRequest" where
  "request signature values =
     \<lparr> TaskCreationRequest.workspace = TaskFormValues.workspace values,
       TaskCreationRequest.name = TaskFormValues.name values,
       custom_fields = customFields values,
       TaskCreationRequest.projects =
         (case TaskFormValues.projects values of
            None \<Rightarrow> None
          | Some ps \<Rightarrow> if length ps > 0 then Some ps else None),
       html_notes =
         (if truthy (description values) then Some (htmlNotes signature values) else None),
       TaskCreationRequest.assignee =
         (if truthy (TaskFormValues.assignee values)
          then TaskFormValues.assignee values else None),
       due_on =
         (case due_date values of
            None \<Rightarrow> None
          | Some d \<Rightarrow> Some (format_yyyy_MM_dd d)) \<rparr>"

subsection \<open>The toast, the form hook and the remote call\<close>

text \<open>
  The created task as the remote service returns it: the source reads \<^verbatim>\<open>permalink_url\<close>
  and hands the whole task to the detail view.
\<close>

record Task =
  gid :: string
  permalink_url :: string

datatype ToastStyle = Animated | Success | Failure

record Shortcut =
  modifiers :: "string list"
  key :: string

text \<open>
  The two \<^verbatim>\<open>onAction\<close> closures of lines 66 and 72--76, each holding the task it was
  built from: pushing the detail view of the task, and copying its permalink.
\<close>

datatype OnAction = PushTaskDetail Task | CopyTaskUrl Task

record ToastAction =
  title :: string
  shortcut :: Shortcut
  onAction :: OnAction

record Toast =
  style :: ToastStyle
  title :: string
  message :: "string option"
  primaryAction :: "ToastAction option"
  secondaryAction :: "ToastAction option"

text \<open>
  How a call of an asynchronous function ends for its caller: the promise is rejected with
  an error (\<open>Inl\<close>) or resolved with a value (\<open>Inr\<close>).
\<close>

type_synonym 'e completion = "'e + FormValue"

text \<open>
  What a submission leaves behind: the toast shown to the user, the create-task calls
  issued (in order), the values of the form, the item that was given the focus, and what
  the caller of the handler receives.
\<close>

record 'e World =
  toast :: Toast
  sent :: "TaskCreationRequest list"
  form :: TaskFormValues
  focused :: "string option"
  completion :: "'e completion"

fun as_string :: "FormValue \<Rightarrow> string option" where
  "as_string (Str s) = Some s"
| "as_string _ = None"

fun as_list :: "FormValue \<Rightarrow> string list option" where
  "as_list (StrList xs) = Some xs"
| "as_list _ = None"

fun as_date :: "FormValue \<Rightarrow> Date option" where
  "as_date (DateValue d) = Some d"
| "as_date _ = None"

definition named_items :: "string list" where
  "named_items =
     [''workspace'', ''projects'', ''name'', ''description'', ''assignee'', ''due_date'']"

text \<open>
  Modelled from the spec: \<^verbatim>\<open>reset\<close> is a function of the host's form hook
  (\<^verbatim>\<open>useForm\<close>), which is not under src. The spec names it a form-reset sink that
  clears input state after success, the draft being reset to blank. The values of the form
  become the object the call is given: an item the call names takes the value given for
  it, and every other item is cleared.
\<close>

definition reset :: "(string \<times> FormValue) list \<Rightarrow> TaskFormValues" where
  "reset given =
     \<lparr> TaskFormValues.workspace =
         (case map_of given ''workspace'' of None \<Rightarrow> None | Some x \<Rightarrow> as_string x),
       TaskFormValues.projects =
         (case map_of given ''projects'' of None \<Rightarrow> None | Some x \<Rightarrow> as_list x),
       TaskFormValues.name =
         (case map_of given ''name'' of None \<Rightarrow> None | Some x \<Rightarrow> as_string x),
       description =
         (case map_of given ''description'' of None \<Rightarrow> None | Some x \<Rightarrow> as_string x),
       TaskFormValues.assignee =
         (case map_of given ''assignee'' of None \<Rightarrow> None | Some x \<Rightarrow> as_string x),
       due_date =
         (case map_of given ''due_date'' of None \<Rightarrow> None | Some x \<Rightarrow> as_date x),
       others = filter (\<lambda>(k, x). k \<notin> set named_items) given \<rparr>"

text \<open>
  One invocation of the remote call: it gives what the service answers and records the
  request in the log of the calls issued. The handler reaches the service only through
  here.
\<close>

definition call ::
  "(TaskCreationRequest \<Rightarrow> 'e + Task) \<Rightarrow> TaskCreationRequest \<Rightarrow> TaskCreationRequest list \<Rightarrow>
     ('e + Task) \<times> TaskCreationRequest list" where
  "call createTask req log = (createTask req, log @ [req])"

text \<open>
  \<^verbatim>\<open>onSubmit\<close> (lines 25--87). The remote call \<^verbatim>\<open>createTask\<close> and the helper
  \<^verbatim>\<open>getErrorMessage\<close> are not under src and are parameters: \<open>createTask\<close> gives, for the
  request it receives, either the error it throws (\<open>Inl\<close>) or the task it resolves to
  (\<open>Inr\<close>). The preference \<^verbatim>\<open>signature\<close> read at line 30 is a parameter as well.
  The one \<^verbatim>\<open>await createTask\<close> of line 50 is the one \<open>call\<close>; the \<^verbatim>\<open>catch\<close> of line 82
  takes the error, and the function has no \<^verbatim>\<open>return\<close>, so in both branches its promise
  resolves with \<^verbatim>\<open>undefined\<close>.
\<close>

definition onSubmit ::
  "(TaskCreationRequest \<Rightarrow> 'e + Task) \<Rightarrow> ('e \<Rightarrow> string) \<Rightarrow> Props \<Rightarrow> bool \<Rightarrow>
     TaskFormValues \<Rightarrow> 'e World" where
  "onSubmit createTask getErrorMessage props signature values =
     (let toast0 = \<lparr> style = Animated, Toast.title = ''Creating task'', message = None,
                      primaryAction = None, secondaryAction = None \<rparr>;
          req = request signature values;
          (result, log) = call createTask req []
      in case result of
           Inr task \<Rightarrow>
             \<lparr> toast = toast0
                 \<lparr> style := Success,
                   Toast.title := ''Created task'',
                   primaryAction := Some
                     \<lparr> ToastAction.title = ''Open Task'',
                       shortcut = \<lparr> modifiers = [''cmd'', ''shift''], key = ''o'' \<rparr>,
                       onAction = PushTaskDetail task \<rparr>,
                   secondaryAction := Some
                     \<lparr> ToastAction.title = ''Copy Task URL'',
                       shortcut = \<lparr> modifiers = [''cmd'', ''shift''], key = ''c'' \<rparr>,
                       onAction = CopyTaskUrl task \<rparr> \<rparr>,
               sent = log,
               form = reset [(''name'', Str []), (''description'', Str []), (''due_date'', Null)],
               focused = Some ''name'',
               completion = Inr Undefined \<rparr>
         | Inl error \<Rightarrow>
             \<lparr> toast = toast0
                 \<lparr> style := Failure,
                   Toast.title := ''Failed to create task'',
                   message := Some (getErrorMessage error) \<rparr>,
               sent = log,
               form = values,
               focused = None,
               completion = Inr Undefined \<rparr>)"

subsection \<open>Sample inputs\<close>

text \<open>The second example of the spec, with a time of day on the due date.\<close>

definition date_2024_05_01 :: Date where
  "date_2024_05_01 =
     \<lparr> getFullYear = 2024, getMonth = 4, getDate = 1, getHours = 10, getMinutes = 30,
       getSeconds = 0, getMilliseconds = 0 \<rparr>"

definition draft_example :: TaskFormValues where
  "draft_example =
     \<lparr> TaskFormValues.workspace = Some ''W1'',
       TaskFormValues.projects = Some [''P1''],
       TaskFormValues.name = Some ''Ship report'',
       description = Some ''Draft v1'',
       TaskFormValues.assignee = Some ''U1'',
       due_date = Some date_2024_05_01,
       others = [(''field-7'', Str ''high''), (''field-8'', Str [])] \<rparr>"

text \<open>A draft with the "Unassigned" choice, no description and no projects.\<close>

definition draft_unassigned :: TaskFormValues where
  "draft_unassigned =
     \<lparr> TaskFormValues.workspace = Some ''W1'',
       TaskFormValues.projects = Some [],
       TaskFormValues.name = Some ''Ship report'',
       description = Some [],
       TaskFormValues.assignee = Some [],
       due_date = None,
       others = [] \<rparr>"

text \<open>A draft whose one custom field has an identifier with a dash in it.\<close>

definition draft_dashed :: TaskFormValues where
  "draft_dashed =
     \<lparr> TaskFormValues.workspace = Some ''W1'',
       TaskFormValues.projects = None,
       TaskFormValues.name = Some ''Ship report'',
       description = None,
       TaskFormValues.assignee = None,
       due_date = None,
       others = [(''field-12-34'', Str ''x'')] \<rparr>"

definition props_example :: Props where
  "props_example =
     \<lparr> draftValues = None, Props.assignee = Some ''U1'', Props.workspace = Some ''W1'',
       fromEmptyView = None \<rparr>"

definition task_example :: Task where
  "task_example = \<lparr> gid = ''T1'', permalink_url = ''https://app.asana.com/0/0/T1'' \<rparr>"

text \<open>A remote service that accepts every request, and one that is unreachable.\<close>

definition service_ok :: "TaskCreationRequest \<Rightarrow> string + Task" where
  "service_ok r = Inr task_example"

definition service_down :: "TaskCreationRequest \<Rightarrow> string + Task" where
  "service_down r = Inl ''connect ECONNREFUSED''"

definition message_of :: "string \<Rightarrow> string" where
  "message_of e = e"

section \<open>Properties\<close>

subsection \<open>Splitting and the field identifier\<close>

lemma customFieldsEntries_others:
  "customFieldsEntries v =
     filter (\<lambda>(k, x). startsWith k ''field-'' \<and> x \<noteq> Str []) (others v)"
  by (simp add: customFieldsEntries_def Object_entries_def startsWith_def)

lemma split_not_Nil: "split s c \<noteq> []"
  by (induction s) (auto split: list.splits)

lemma hd_split: "hd (split s c) = takeWhile (\<lambda>x. x \<noteq> c) s"
  by (induction s) (auto split: list.splits simp: split_not_Nil)

lemma split_Cons_other:
  "x \<noteq> c \<Longrightarrow> split (x # xs) c = (x # hd (split xs c)) # tl (split xs c)"
  by (cases "split xs c") (auto simp: split_not_Nil)

lemma split_field:
  "split (''field-'' @ ident) (CHR ''-'') = ''field'' # split ident (CHR ''-'')"
  by (simp add: split_Cons_other)

lemma fieldId_field:
  "fieldId (''field-'' @ ident) = takeWhile (\<lambda>x. x \<noteq> CHR ''-'') ident"
proof -
  obtain w ws where s: "split ident (CHR ''-'') = w # ws"
    by (cases "split ident (CHR ''-'')") (auto simp: split_not_Nil)
  have "w = takeWhile (\<lambda>x. x \<noteq> CHR ''-'') ident"
    using hd_split [of ident "CHR ''-''"] s by simp
  then show ?thesis
    unfolding fieldId_def split_field s by simp
qed

lemma startsWith_iff: "startsWith k p \<longleftrightarrow> (\<exists>r. k = p @ r)"
proof
  assume "startsWith k p"
  then have "k = p @ drop (length p) k"
    using append_take_drop_id [of "length p" k] by (simp add: startsWith_def)
  then show "\<exists>r. k = p @ r" ..
next
  assume "\<exists>r. k = p @ r"
  then show "startsWith k p" by (auto simp: startsWith_def)
qed

lemma fieldId_dash_free:
  assumes "startsWith k ''field-''" and "CHR ''-'' \<notin> set (drop 6 k)"
  shows "k = ''field-'' @ fieldId k"
proof -
  from assms(1) obtain r where r: "k = ''field-'' @ r"
    by (auto simp: startsWith_iff)
  with assms(2) have "CHR ''-'' \<notin> set r" by simp
  then have "takeWhile (\<lambda>x. x \<noteq> CHR ''-'') r = r"
    by auto
  then have "fieldId (''field-'' @ r) = r"
    by (simp only: fieldId_field)
  then show ?thesis
    by (simp only: r)
qed

subsection \<open>The reduction into the custom-fields mapping\<close>

lemma foldl_upd_map_of:
  "foldl (\<lambda>acc field. acc(g (fst field) \<mapsto> snd field)) m es =
     m ++ map_of (rev (map (\<lambda>field. (g (fst field), snd field)) es))"
proof (induction es arbitrary: m)
  case Nil
  show ?case by simp
next
  case (Cons e es)
  have "m(g (fst e) \<mapsto> snd e) ++ map_of (rev (map (\<lambda>field. (g (fst field), snd field)) es)) =
        m ++ map_of (rev (map (\<lambda>field. (g (fst field), snd field)) (e # es)))"
    by (simp add: map_add_assoc [symmetric])
  then show ?case
    by (simp only: foldl_Cons Cons.IH)
qed

lemma customFields_map_of:
  "customFields v =
     map_of (rev (map (\<lambda>field. (fieldId (fst field), snd field)) (customFieldsEntries v)))"
  by (simp add: customFields_def foldl_upd_map_of)

text \<open>
  Where the properties of the submitted object are distinct and no custom-field
  identifier has a dash in it, the mapping holds exactly the custom-field entries with a
  value other than the empty string, each under its bare identifier.
\<close>

lemma custom_fields_exact:
  assumes dist: "distinct (map fst (others v))"
    and dash: "\<forall>k \<in> fst ` set (others v).
                 startsWith k ''field-'' \<longrightarrow> CHR ''-'' \<notin> set (drop 6 k)"
  shows "custom_fields (request signature v) ident = Some x \<longleftrightarrow>
           (''field-'' @ ident, x) \<in> set (others v) \<and> x \<noteq> Str []"
proof -
  define es where "es = customFieldsEntries v"
  have set_es: "set es = {(k, x) \<in> set (others v). startsWith k ''field-'' \<and> x \<noteq> Str []}"
    by (auto simp: es_def customFieldsEntries_others)
  have id_of: "k = ''field-'' @ fieldId k" if "(k, y) \<in> set es" for k y
  proof -
    from that have "startsWith k ''field-''" and "k \<in> fst ` set (others v)"
      by (auto simp: set_es intro: rev_image_eqI)
    with dash show ?thesis
      by (blast intro: fieldId_dash_free)
  qed
  have "distinct (map fst es)"
    using dist by (simp add: es_def customFieldsEntries_others distinct_map_filter)
  moreover have "inj_on fieldId (fst ` set es)"
  proof (rule inj_onI)
    fix a b assume a: "a \<in> fst ` set es" and b: "b \<in> fst ` set es"
      and eq: "fieldId a = fieldId b"
    from a obtain y where "(a, y) \<in> set es" by auto
    then have "a = ''field-'' @ fieldId a" by (rule id_of)
    moreover from b obtain z where "(b, z) \<in> set es" by auto
    then have "b = ''field-'' @ fieldId b" by (rule id_of)
    ultimately show "a = b" using eq by simp
  qed
  ultimately have "distinct (map fieldId (map fst es))"
    using distinct_map [of fieldId "map fst es"] by simp
  then have d: "distinct (map fst (rev (map (\<lambda>field. (fieldId (fst field), snd field)) es)))"
    by (simp add: rev_map [symmetric] comp_def)
  have "custom_fields (request signature v) ident = Some x \<longleftrightarrow>
        (ident, x) \<in> set (map (\<lambda>field. (fieldId (fst field), snd field)) es)"
    using map_of_eq_Some_iff [OF d, of ident x]
    by (simp add: request_def customFields_map_of es_def)
  also have "\<dots> \<longleftrightarrow> (''field-'' @ ident, x) \<in> set es"
  proof
    assume "(ident, x) \<in> set (map (\<lambda>field. (fieldId (fst field), snd field)) es)"
    then obtain k where "(k, x) \<in> set es" and "fieldId k = ident"
      by auto
    then show "(''field-'' @ ident, x) \<in> set es"
      using id_of [of k x] by simp
  next
    assume a: "(''field-'' @ ident, x) \<in> set es"
    then have "fieldId (''field-'' @ ident) = ident"
      using id_of [of "''field-'' @ ident" x] by simp
    with a show "(ident, x) \<in> set (map (\<lambda>field. (fieldId (fst field), snd field)) es)"
      by force
  qed
  also have "\<dots> \<longleftrightarrow> (''field-'' @ ident, x) \<in> set (others v) \<and> x \<noteq> Str []"
    by (auto simp: set_es startsWith_def)
  finally show ?thesis .
qed

subsection \<open>The date format\<close>

text \<open>
  For a year from 1 to 9999 the formatted date has ten characters, with the dashes after
  the year and after the month.
\<close>

lemma length_decimal: "n < 10 ^ k \<Longrightarrow> 0 < k \<Longrightarrow> length (decimal n) \<le> k"
proof (induction n arbitrary: k rule: decimal.induct)
  case (1 n)
  show ?case
  proof (cases "n < 10")
    case True
    with 1(3) show ?thesis
      by (simp add: decimal.simps [of n])
  next
    case False
    obtain j where k: "k = Suc j"
      using 1(3) by (cases k) auto
    with False 1(2) have "0 < j"
      by (cases j) auto
    moreover have "n div 10 < 10 ^ j"
      using 1(2) by (simp add: k less_mult_imp_div_less mult.commute)
    ultimately have "length (decimal (n div 10)) \<le> j"
      using False by (intro "1.IH") auto
    with False show ?thesis
      by (simp add: decimal.simps [of n] k)
  qed
qed

lemma length_decimal_2: "n < 100 \<Longrightarrow> length (decimal n) \<le> 2"
  using length_decimal [of n 2] by simp

lemma length_decimal_4: "n < 10000 \<Longrightarrow> length (decimal n) \<le> 4"
  using length_decimal [of n 4] by simp

lemma length_addLeadingZeros:
  "length (decimal n) \<le> len \<Longrightarrow> length (addLeadingZeros n len) = len"
  by (simp add: addLeadingZeros_def)

lemma format_yyyy_MM_dd_shape:
  assumes "0 < getFullYear d" and "getFullYear d < 10000" and "getMonth d < 12"
    and "getDate d < 32"
  shows "length (format_yyyy_MM_dd d) = 10
         \<and> format_yyyy_MM_dd d ! 4 = CHR ''-'' \<and> format_yyyy_MM_dd d ! 7 = CHR ''-''"
proof -
  have y: "length (addLeadingZeros (nat (getFullYear d)) 4) = 4"
    using assms by (intro length_addLeadingZeros length_decimal_4) simp
  have m: "length (addLeadingZeros (getMonth d + 1) 2) = 2"
    using assms by (intro length_addLeadingZeros length_decimal_2) simp
  have dd: "length (addLeadingZeros (getDate d) 2) = 2"
    using assms by (intro length_addLeadingZeros length_decimal_2) simp
  show ?thesis
    using assms(1) y m dd by (simp add: format_yyyy_MM_dd_def Let_def nth_append)
qed

subsection \<open>Notes\<close>

text \<open>
  C1. The request carries \<open>html_notes\<close> exactly when the description of the draft is a
  non-empty string. It is then the description between \<^verbatim>\<open><body>\<close> and \<^verbatim>\<open></body>\<close>,
  followed inside the body, exactly when the signature preference is on, by the separator
  and the fixed signature. With an empty or missing description there is no
  \<open>html_notes\<close>, whatever the preference.
\<close>

theorem html_notes_iff_description:
  "html_notes (request signature v) =
     (case description v of
        None \<Rightarrow> None
      | Some d \<Rightarrow>
          if d = [] then None
          else Some (''<body>'' @ d @ (if signature then separator @ signature_markup else [])
                       @ ''</body>''))"
  by (simp add: request_def htmlNotes_def split: option.splits)

theorem html_notes_iff_description_witness:
  \<open>html_notes (request True draft_example) =
     Some (''<body>Draft v1'' @ [CHR 0x0A] @ ''--'' @ [CHR 0x0A] @
           ''Created via <a href="https://www.raycast.com/?ref=signatureAsana">Raycast</a>'' @
           ''</body>'')
   \<and> html_notes (request False draft_example) = Some ''<body>Draft v1</body>''
   \<and> html_notes (request True draft_unassigned) = None\<close>
  using html_notes_iff_description [of True draft_example]
    html_notes_iff_description [of False draft_example]
    html_notes_iff_description [of True draft_unassigned]
  by (simp add: draft_example_def draft_unassigned_def separator_def signature_markup_def)

subsection \<open>Custom fields\<close>

text \<open>
  C2. The claim reads: the mapping \<open>custom_fields\<close> holds exactly the custom-field entries
  with a non-empty value, each under its bare identifier. The source at the draft
  \<open>draft_dashed\<close>, whose field identifier is \<^verbatim>\<open>12-34\<close>: nothing is stored under
  \<^verbatim>\<open>12-34\<close>, and the value is stored under \<^verbatim>\<open>12\<close>. (For identifiers without a dash
  the claim holds: \<open>custom_fields_exact\<close>.)
\<close>

theorem custom_fields_dashed_identifier:
  "others draft_dashed = [(''field-12-34'', Str ''x'')]
   \<and> custom_fields (request False draft_dashed) ''12-34'' = None
   \<and> custom_fields (request False draft_dashed) ''12'' = Some (Str ''x'')"
  by (simp add: draft_dashed_def request_def customFields_def customFieldsEntries_def
      Object_entries_def startsWith_def fieldId_def)

lemma map_of_rev_last:
  "map_of (rev (map (\<lambda>field. (g (fst field), snd field)) es)) i =
     (case filter (\<lambda>field. g (fst field) = i) es of
        [] \<Rightarrow> None
      | f # fs \<Rightarrow> Some (snd (last (f # fs))))"
proof (induction es rule: rev_induct)
  case Nil
  show ?case by simp
next
  case (snoc e es)
  show ?case
  proof (cases "g (fst e) = i")
    case True
    then show ?thesis
      by (cases "filter (\<lambda>field. g (fst field) = i) es") simp_all
  next
    case False
    with snoc show ?thesis by simp
  qed
qed

lemma customFields_last:
  "customFields v i =
     (case filter (\<lambda>(k, x). startsWith k ''field-'' \<and> x \<noteq> Str [] \<and> fieldId k = i) (others v) of
        [] \<Rightarrow> None
      | f # fs \<Rightarrow> Some (snd (last (f # fs))))"
proof -
  have "filter (\<lambda>field. fieldId (fst field) = i) (customFieldsEntries v) =
        filter (\<lambda>(k, x). startsWith k ''field-'' \<and> x \<noteq> Str [] \<and> fieldId k = i) (others v)"
    unfolding customFieldsEntries_others filter_filter
    by (rule filter_cong) auto
  then show ?thesis
    by (simp only: customFields_map_of map_of_rev_last)
qed

lemma dom_customFields:
  "dom (customFields v) =
     set (map (\<lambda>(k, x). fieldId k)
            (filter (\<lambda>(k, x). startsWith k ''field-'' \<and> x \<noteq> Str []) (others v)))"
proof -
  have "dom (customFields v) = (\<lambda>field. fieldId (fst field)) ` set (customFieldsEntries v)"
    unfolding customFields_map_of dom_map_of_conv_image_fst by (simp add: image_image)
  also have "\<dots> = set (map (\<lambda>(k, x). fieldId k) (customFieldsEntries v))"
    by (simp add: case_prod_beta)
  finally show ?thesis
    by (simp only: customFieldsEntries_others)
qed

lemma customFields_no_dash:
  assumes "CHR ''-'' \<in> set ident"
  shows "customFields v ident = None"
proof (rule ccontr)
  assume "customFields v ident \<noteq> None"
  then have "ident \<in> dom (customFields v)" by auto
  then obtain k x where "startsWith k ''field-''" and i: "ident = fieldId k"
    unfolding dom_customFields by auto
  then obtain r where "k = ''field-'' @ r"
    by (auto simp: startsWith_iff)
  then have "ident = takeWhile (\<lambda>c. c \<noteq> CHR ''-'') r"
    using i by (simp only: fieldId_field)
  then have "CHR ''-'' \<notin> set ident"
    by (auto dest: set_takeWhileD)
  with assms show False by simp
qed

text \<open>
  C9. For a form item \<^verbatim>\<open>field-<id>\<close> the key used in \<open>custom_fields\<close> is the part of the
  item's id between its first and its second dash (up to the end where there is no second
  dash). The keys of the mapping are exactly these parts, taken over the custom-field
  entries with a value other than the empty string, and under each the mapping holds the
  value of the last such entry with that part. So where the identifier has a dash in it,
  the key is not the identifier, and nothing is ever stored under the identifier itself.
\<close>

theorem fieldId_between_dashes:
  "fieldId (''field-'' @ ident) = takeWhile (\<lambda>c. c \<noteq> CHR ''-'') ident
   \<and> dom (custom_fields (request signature v)) =
       set (map (\<lambda>(k, x). fieldId k)
              (filter (\<lambda>(k, x). startsWith k ''field-'' \<and> x \<noteq> Str []) (others v)))
   \<and> custom_fields (request signature v) i =
       (case filter (\<lambda>(k, x). startsWith k ''field-'' \<and> x \<noteq> Str [] \<and> fieldId k = i)
               (others v) of
          [] \<Rightarrow> None
        | f # fs \<Rightarrow> Some (snd (last (f # fs))))
   \<and> (CHR ''-'' \<in> set ident \<longrightarrow>
        fieldId (''field-'' @ ident) \<noteq> ident
        \<and> custom_fields (request signature v) ident = None)"
proof (intro conjI impI)
  show "fieldId (''field-'' @ ident) = takeWhile (\<lambda>c. c \<noteq> CHR ''-'') ident"
    by (rule fieldId_field)
next
  show "dom (custom_fields (request signature v)) =
          set (map (\<lambda>(k, x). fieldId k)
                 (filter (\<lambda>(k, x). startsWith k ''field-'' \<and> x \<noteq> Str []) (others v)))"
    using dom_customFields [of v] by (simp add: request_def)
next
  show "custom_fields (request signature v) i =
          (case filter (\<lambda>(k, x). startsWith k ''field-'' \<and> x \<noteq> Str [] \<and> fieldId k = i)
                  (others v) of
             [] \<Rightarrow> None
           | f # fs \<Rightarrow> Some (snd (last (f # fs))))"
    using customFields_last [of v i] by (simp add: request_def)
next
  assume "CHR ''-'' \<in> set ident"
  then have "takeWhile (\<lambda>c. c \<noteq> CHR ''-'') ident \<noteq> ident"
    by auto
  then show "fieldId (''field-'' @ ident) \<noteq> ident"
    using fieldId_field [of ident] by simp
next
  assume "CHR ''-'' \<in> set ident"
  then show "custom_fields (request signature v) ident = None"
    using customFields_no_dash [of ident v] by (simp add: request_def)
qed

theorem fieldId_between_dashes_witness:
  "fieldId ''field-12-34'' = ''12''
   \<and> dom (custom_fields (request False draft_dashed)) = {''12''}
   \<and> custom_fields (request False draft_dashed) ''12'' = Some (Str ''x'')
   \<and> CHR ''-'' \<in> set ''12-34''
   \<and> fieldId ''field-12-34'' \<noteq> ''12-34''
   \<and> custom_fields (request False draft_dashed) ''12-34'' = None"
  using fieldId_between_dashes [of "''12-34''" False draft_dashed "''12''"]
  by (simp add: draft_dashed_def startsWith_def)

subsection \<open>Fields of the request\<close>

text \<open>
  C3. For a draft whose workspace and name are non-empty strings, the request that is
  built, and that is the one request sent, has exactly these as its \<open>workspace\<close> and
  \<open>name\<close>.
\<close>

theorem workspace_and_name_unchanged:
  assumes "TaskFormValues.workspace v = Some w" and "w \<noteq> []"
    and "TaskFormValues.name v = Some n" and "n \<noteq> []"
  shows "TaskCreationRequest.workspace (request signature v) = Some w
         \<and> TaskCreationRequest.name (request signature v) = Some n
         \<and> sent (onSubmit createTask getErrorMessage props signature v) = [request signature v]"
  using assms by (simp add: request_def onSubmit_def call_def Let_def split: sum.splits)

theorem workspace_and_name_unchanged_witness:
  "TaskCreationRequest.workspace (request True draft_example) = Some ''W1''
   \<and> TaskCreationRequest.name (request True draft_example) = Some ''Ship report''
   \<and> sent (onSubmit service_ok message_of props_example True draft_example)
       = [request True draft_example]"
  using workspace_and_name_unchanged [of draft_example "''W1''" "''Ship report''" True
      service_ok message_of props_example]
  by (simp add: draft_example_def)

text \<open>
  C4. The request has an \<open>assignee\<close> exactly when the draft's assignee is a non-empty
  string, and it is that string. It has \<open>due_on\<close> exactly when the draft has a due date;
  it is then the year, month and day of the local date, zero-padded and joined by dashes,
  with nothing of the time of day (its shape: \<open>format_yyyy_MM_dd_shape\<close>).
\<close>

theorem assignee_and_due_on:
  "TaskCreationRequest.assignee (request signature v) =
     (case TaskFormValues.assignee v of
        None \<Rightarrow> None
      | Some a \<Rightarrow> if a = [] then None else Some a)
   \<and> due_on (request signature v) =
     (case due_date v of
        None \<Rightarrow> None
      | Some d \<Rightarrow>
          Some (addLeadingZeros (nat (if getFullYear d > 0 then getFullYear d
                                       else 1 - getFullYear d)) 4 @ ''-'' @
                addLeadingZeros (getMonth d + 1) 2 @ ''-'' @
                addLeadingZeros (getDate d) 2))"
  by (simp add: request_def format_yyyy_MM_dd_def Let_def split: option.splits)

theorem assignee_and_due_on_witness:
  "TaskCreationRequest.assignee (request True draft_example) = Some ''U1''
   \<and> due_on (request True draft_example) = Some ''2024-05-01''
   \<and> due_on (request True draft_unassigned) = None"
  using assignee_and_due_on [of True draft_example] assignee_and_due_on [of True draft_unassigned]
  by (simp add: draft_example_def draft_unassigned_def date_2024_05_01_def
      addLeadingZeros_def decimal.simps)

text \<open>
  C5. The request has \<open>projects\<close> exactly when the draft's list of projects is present and
  not empty, and it is then that list.
\<close>

theorem projects_iff_nonempty:
  "TaskCreationRequest.projects (request signature v) =
     (case TaskFormValues.projects v of
        None \<Rightarrow> None
      | Some ps \<Rightarrow> if ps = [] then None else Some ps)"
  by (simp add: request_def split: option.splits)

theorem projects_iff_nonempty_witness:
  "TaskCreationRequest.projects (request True draft_example) = Some [''P1'']
   \<and> TaskCreationRequest.projects (request True draft_unassigned) = None"
  using projects_iff_nonempty [of True draft_example]
    projects_iff_nonempty [of True draft_unassigned]
  by (simp add: draft_example_def draft_unassigned_def)

text \<open>
  C10. The empty string as assignee, the value of the "Unassigned" choice, counts as no
  assignee: the request has no \<open>assignee\<close> field at all.
\<close>

theorem empty_assignee_omitted:
  assumes "TaskFormValues.assignee v = Some []"
  shows "TaskCreationRequest.assignee (request signature v) = None"
  using assms by (simp add: request_def)

theorem empty_assignee_omitted_witness:
  "TaskFormValues.assignee draft_unassigned = Some []
   \<and> TaskCreationRequest.assignee (request True draft_unassigned) = None"
  using empty_assignee_omitted [of draft_unassigned True]
  by (simp add: draft_unassigned_def)

subsection \<open>Submission\<close>

text \<open>
  C6, as amended. A submission issues exactly one create-task call, with the request built
  from the draft, whether the call fails or not, and the handler gives its caller nothing
  in either case. When the call fails, the error is caught and the toast turns to the
  failure "Failed to create task" whose message is \<open>getErrorMessage\<close> of the error; when
  it succeeds, the toast turns to the success "Created task" whose two actions hold the
  task the service returned.
\<close>

theorem onSubmit_one_call:
  "sent (onSubmit createTask getErrorMessage props signature v) = [request signature v]
   \<and> completion (onSubmit createTask getErrorMessage props signature v) = Inr Undefined
   \<and> (\<forall>e. createTask (request signature v) = Inl e \<longrightarrow>
          style (toast (onSubmit createTask getErrorMessage props signature v)) = Failure
          \<and> Toast.title (toast (onSubmit createTask getErrorMessage props signature v))
              = ''Failed to create task''
          \<and> message (toast (onSubmit createTask getErrorMessage props signature v))
              = Some (getErrorMessage e))
   \<and> (\<forall>t. createTask (request signature v) = Inr t \<longrightarrow>
          style (toast (onSubmit createTask getErrorMessage props signature v)) = Success
          \<and> Toast.title (toast (onSubmit createTask getErrorMessage props signature v))
              = ''Created task''
          \<and> map_option onAction
               (primaryAction (toast (onSubmit createTask getErrorMessage props signature v)))
              = Some (PushTaskDetail t)
          \<and> map_option onAction
               (secondaryAction (toast (onSubmit createTask getErrorMessage props signature v)))
              = Some (CopyTaskUrl t))"
  by (simp add: onSubmit_def call_def Let_def split: sum.splits)

theorem onSubmit_one_call_witness:
  "service_down (request True draft_example) = Inl ''connect ECONNREFUSED''
   \<and> sent (onSubmit service_down message_of props_example True draft_example)
       = [request True draft_example]
   \<and> style (toast (onSubmit service_down message_of props_example True draft_example)) = Failure
   \<and> message (toast (onSubmit service_down message_of props_example True draft_example))
       = Some ''connect ECONNREFUSED''
   \<and> service_ok (request True draft_example) = Inr task_example
   \<and> sent (onSubmit service_ok message_of props_example True draft_example)
       = [request True draft_example]
   \<and> style (toast (onSubmit service_ok message_of props_example True draft_example)) = Success
   \<and> map_option onAction
        (primaryAction (toast (onSubmit service_ok message_of props_example True draft_example)))
       = Some (PushTaskDetail task_example)
   \<and> map_option onAction
        (secondaryAction (toast (onSubmit service_ok message_of props_example True draft_example)))
       = Some (CopyTaskUrl task_example)"
  using onSubmit_one_call [of service_down message_of props_example True draft_example]
    onSubmit_one_call [of service_ok message_of props_example True draft_example]
  by (simp add: service_down_def service_ok_def message_of_def)

text \<open>
  C6, as stated, has the failure surfaced to the caller as an error and the created task
  returned. With the service unreachable the handler ends for its caller as it does with
  the service accepting the request: resolved with \<^verbatim>\<open>undefined\<close>, no error and no task.
\<close>

theorem onSubmit_returns_nothing_counterexample:
  "service_down (request True draft_example) = Inl ''connect ECONNREFUSED''
   \<and> completion (onSubmit service_down message_of props_example True draft_example)
       = Inr Undefined
   \<and> service_ok (request True draft_example) = Inr task_example
   \<and> completion (onSubmit service_ok message_of props_example True draft_example)
       = Inr Undefined"
  by (simp add: service_down_def service_ok_def onSubmit_def call_def Let_def)

text \<open>
  C7. When the create-task call fails, the values of the form are the submitted draft,
  every field as it was, and no item is given the focus.
\<close>

theorem failure_keeps_draft:
  assumes "createTask (request signature v) = Inl e"
  shows "form (onSubmit createTask getErrorMessage props signature v) = v
         \<and> focused (onSubmit createTask getErrorMessage props signature v) = None"
  using assms by (simp add: onSubmit_def call_def Let_def)

theorem failure_keeps_draft_witness:
  "service_down (request True draft_example) = Inl ''connect ECONNREFUSED''
   \<and> form (onSubmit service_down message_of props_example True draft_example) = draft_example"
  using failure_keeps_draft [of service_down True draft_example "''connect ECONNREFUSED''"
      message_of props_example]
  by (simp add: service_down_def)

text \<open>
  C8. After a successful submission every field of the draft is blank: name and
  description are the empty string, the due date is cleared, workspace, projects and
  assignee are unset and no custom-field value is left; the focus is on the name.
\<close>

theorem success_resets_draft:
  assumes "createTask (request signature v) = Inr t"
  shows "form (onSubmit createTask getErrorMessage props signature v) =
           \<lparr> TaskFormValues.workspace = None,
             TaskFormValues.projects = None,
             TaskFormValues.name = Some [],
             description = Some [],
             TaskFormValues.assignee = None,
             due_date = None,
             others = [] \<rparr>
         \<and> focused (onSubmit createTask getErrorMessage props signature v) = Some ''name''"
  using assms by (simp add: onSubmit_def call_def Let_def reset_def named_items_def)

theorem success_resets_draft_witness:
  "service_ok (request True draft_example) = Inr task_example
   \<and> form (onSubmit service_ok message_of props_example True draft_example) =
       \<lparr> TaskFormValues.workspace = None,
         TaskFormValues.projects = None,
         TaskFormValues.name = Some [],
         description = Some [],
         TaskFormValues.assignee = None,
         due_date = None,
         others = [] \<rparr>
   \<and> form (onSubmit service_ok message_of props_example True draft_example) \<noteq> draft_example"
  using success_resets_draft [of service_ok True draft_example task_example
      message_of props_example]
  by (simp add: service_ok_def draft_example_def)

end
